theory Spec2Isabelle
  imports Main
begin

section \<open>The HTTPProxy orchestrator of pkg/object/httpproxy/httpproxy.go\<close>

text \<open>
  The orchestrator runs a request through optional stages (validator, rate limiter, circuit
  breaker, adaptor, mirror backend, candidate backend, compression, fallback) and one mandatory
  backend. The stages are code of other packages: the model takes each of them as a parameter,
  a record of the methods the orchestrator calls, every method an arbitrary function on the
  request context. A Go \<open>error\<close> is modelled by its message, \<open>nil\<close> by \<open>None\<close>.
\<close>

type_synonym error = string

text \<open>
  The stage tags handed to the fallback manager. Their declaration (fallback.go) is not part
  of the file at hand; the four names are the ones httpproxy.go uses.
\<close>

datatype fallbackPlugin =
    fallbackPluginRateLimiter
  | fallbackPluginCircuitBreaker
  | fallbackPluginBackend
  | fallbackPluginCandidateBackend

subsection \<open>The rate counter\<close>

text \<open>
  \<open>rate1\<close> is a \<open>metrics.EWMA\<close> of an external library. The only method used is
  \<open>Update\<close>; the counter is modelled by the sequence of values it was updated with, so that
  the number of updates can be read off.
\<close>

type_synonym EWMA = "int list"

definition Update :: "int \<Rightarrow> EWMA \<Rightarrow> EWMA" where
  "Update n r = r @ [n]"

subsection \<open>The request context\<close>

text \<open>
  \<open>context.HTTPContext\<close> is an interface of another package. The model keeps the parts the
  orchestrator touches: the status code of the response, the cancellation reason, the
  functions registered with \<open>OnFinish\<close> (each acts on the rate counter), and an opaque
  payload for everything else (headers, bodies) that the stages read and write.
\<close>

record 'p HTTPContext =
  statusCode :: int
  cancelErr :: "error option"
  finishFuncs :: "(EWMA \<Rightarrow> EWMA) list"
  payload :: 'p

type_synonym 'p stageFn = "'p HTTPContext \<Rightarrow> 'p HTTPContext"

text \<open>
  Every call that the orchestrator issues is recorded, in order, in a trace: the calls on the
  context, the calls on the stages, and the entry into its own \<open>tryFallback\<close>. The
  trace is what "invoked exactly once", "never invoked" and "before" are stated on. It is
  not part of the context, so no stage can read or change it.
\<close>

datatype call =
    CtxOnFinish
  | CtxSetStatusCode int
  | CtxCancel error
  | CallValidate
  | CallLimit
  | CallAdaptRequest
  | CallMirrorHandle
  | CallFilter
  | CallHandler fallbackPlugin
  | CallProtect fallbackPlugin
  | CallAdaptResponse
  | TryFallback fallbackPlugin "error option"
  | CallFallbackTryFallback fallbackPlugin "error option"

text \<open>The calls that \<open>Close\<close> issues, one per stage.\<close>

datatype closeCall =
    CloseFallback
  | CloseValidator
  | CloseRateLimiter
  | CloseCircuitBreaker
  | CloseAdaptor
  | CloseMirrorBackend
  | CloseCandidateBackend
  | CloseBackend
  | CloseCompression

record 'p world =
  ctx :: "'p HTTPContext"
  calls :: "call list"

definition record_call :: "call \<Rightarrow> 'p world \<Rightarrow> 'p world" where
  "record_call e w = w\<lparr>calls := calls w @ [e]\<rparr>"

text \<open>A call of a stage method without a result, and of one with a result.\<close>

definition invoke :: "call \<Rightarrow> 'p stageFn \<Rightarrow> 'p world \<Rightarrow> 'p world" where
  "invoke e f w = record_call e (w\<lparr>ctx := f (ctx w)\<rparr>)"

definition invoke_r ::
  "call \<Rightarrow> ('p HTTPContext \<Rightarrow> 'r \<times> 'p HTTPContext) \<Rightarrow> 'p world \<Rightarrow> 'r \<times> 'p world" where
  "invoke_r e f w = (case f (ctx w) of (r, c) \<Rightarrow> (r, record_call e (w\<lparr>ctx := c\<rparr>)))"

text \<open>\<open>ctx.Response().SetStatusCode(code)\<close>.\<close>

definition SetStatusCode :: "int \<Rightarrow> 'p world \<Rightarrow> 'p world" where
  "SetStatusCode code w = record_call (CtxSetStatusCode code) (w\<lparr>ctx := (ctx w)\<lparr>statusCode := code\<rparr>\<rparr>)"

text \<open>\<open>ctx.Cancelled()\<close>.\<close>

definition Cancelled :: "'p world \<Rightarrow> bool" where
  "Cancelled w = (cancelErr (ctx w) \<noteq> None)"

text \<open>
  Modelled from the spec: \<open>ctx.Cancel(err)\<close>, whose implementation (pkg/context) is missing.
  The spec: "a single cancellation flag per request, settable once with a reason".
\<close>

definition Cancel :: "error \<Rightarrow> 'p world \<Rightarrow> 'p world" where
  "Cancel err w =
     record_call (CtxCancel err)
       (if Cancelled w then w else w\<lparr>ctx := (ctx w)\<lparr>cancelErr := Some err\<rparr>\<rparr>)"

text \<open>
  Modelled from the spec: \<open>ctx.OnFinish(fn)\<close>, whose implementation (pkg/context) is missing.
  The spec: "a run on completion hook registration".
\<close>

definition OnFinish :: "(EWMA \<Rightarrow> EWMA) \<Rightarrow> 'p world \<Rightarrow> 'p world" where
  "OnFinish fn w = record_call CtxOnFinish (w\<lparr>ctx := (ctx w)\<lparr>finishFuncs := finishFuncs (ctx w) @ [fn]\<rparr>\<rparr>)"

text \<open>
  Modelled from the spec: the completion of a request by the transport layer (pkg/context,
  missing), which runs the registered functions in the order of their registration.
\<close>

definition Finish :: "'p HTTPContext \<Rightarrow> EWMA \<Rightarrow> EWMA" where
  "Finish c r = fold (\<lambda>fn acc. fn acc) (finishFuncs c) r"

subsection \<open>The stages\<close>

record 'p proxyFallback =
  fallback_tryFallback :: "fallbackPlugin \<Rightarrow> error option \<Rightarrow> 'p stageFn"

record 'p Validator =
  Validate :: "'p HTTPContext \<Rightarrow> error option \<times> 'p HTTPContext"

record 'p RateLimiter =
  Limit :: "'p HTTPContext \<Rightarrow> error option \<times> 'p HTTPContext"

record 'p CircuitBreaker =
  Protect :: "'p stageFn \<Rightarrow> 'p HTTPContext \<Rightarrow> error option \<times> 'p HTTPContext"

record 'p Adaptor =
  AdaptRequest :: "'p stageFn"
  AdaptResponse :: "'p stageFn"

record 'p MirrorBackend =
  MirrorHandle :: "'p stageFn"

record 'p Compression =
  Compress :: "'p stageFn"

text \<open>
  A backend and a candidate backend own the list of the response observers registered with
  \<open>OnResponseGot\<close>. What their \<open>Handle\<close> does with the observers is their own code: it is a
  parameter that receives the list.
\<close>

record 'p CandidateBackend =
  Filter :: "'p HTTPContext \<Rightarrow> bool \<times> 'p HTTPContext"
  CandidateHandle :: "'p stageFn list \<Rightarrow> 'p stageFn"
  candidateResponseGotFuncs :: "'p stageFn list"

record 'p Backend =
  BackendHandle :: "'p stageFn list \<Rightarrow> 'p stageFn"
  backendResponseGotFuncs :: "'p stageFn list"

text \<open>
  Modelled from the spec: \<open>OnResponseGot\<close> of the backend and of the candidate backend
  (pkg/plugin, missing). The spec: "an explicit observer list owned by each stage that can
  produce a response, registered during construction".
\<close>

definition Backend_OnResponseGot :: "'p stageFn \<Rightarrow> 'p Backend \<Rightarrow> 'p Backend" where
  "Backend_OnResponseGot fn b = b\<lparr>backendResponseGotFuncs := backendResponseGotFuncs b @ [fn]\<rparr>"

definition CandidateBackend_OnResponseGot :: "'p stageFn \<Rightarrow> 'p CandidateBackend \<Rightarrow> 'p CandidateBackend" where
  "CandidateBackend_OnResponseGot fn cb = cb\<lparr>candidateResponseGotFuncs := candidateResponseGotFuncs cb @ [fn]\<rparr>"

subsection \<open>The orchestrator\<close>

text \<open>
  The struct \<open>HTTPProxy\<close>: a nil pointer is \<open>None\<close>. The fields \<open>spec\<close> and \<open>rate1\<close> are
  left out: no method reads \<open>spec\<close>, and the state of \<open>rate1\<close> is the counter that the
  registered completion function acts on.
\<close>

record 'p HTTPProxy =
  fallback :: "'p proxyFallback option"
  validator :: "'p Validator option"
  rateLimiter :: "'p RateLimiter option"
  circuitBreaker :: "'p CircuitBreaker option"
  adaptor :: "'p Adaptor option"
  mirrorBackend :: "'p MirrorBackend option"
  candidateBackend :: "'p CandidateBackend option"
  backend :: "'p Backend"
  compression :: "'p Compression option"

text \<open>\<open>tryFallback\<close> (lines 196-202).\<close>

definition tryFallback ::
  "'p HTTPProxy \<Rightarrow> fallbackPlugin \<Rightarrow> error option \<Rightarrow> 'p world \<Rightarrow> 'p world" where
  "tryFallback hp pt err w0 =
     (let w = record_call (TryFallback pt err) w0 in
      case fallback hp of
        Some f \<Rightarrow> invoke (CallFallbackTryFallback pt err) (fallback_tryFallback f pt err) w
      | None \<Rightarrow> (case err of Some e \<Rightarrow> Cancel e w | None \<Rightarrow> w))"

text \<open>
  \<open>preHandle\<close> (lines 137-167). Each early return ends the function; the rest of the body
  after the validator is \<open>preHandle_rateLimiter\<close> (lines 150-166), and the rest after the
  rate limiter is \<open>preHandle_adaptor\<close> (lines 160-166).
\<close>

definition preHandle_adaptor :: "'p HTTPProxy \<Rightarrow> 'p world \<Rightarrow> 'p world" where
  "preHandle_adaptor hp w =
     (let w1 = (case adaptor hp of
                  Some a \<Rightarrow> invoke CallAdaptRequest (AdaptRequest a) w
                | None \<Rightarrow> w)
      in case mirrorBackend hp of
           Some m \<Rightarrow> invoke CallMirrorHandle (MirrorHandle m) w1
         | None \<Rightarrow> w1)"

definition preHandle_rateLimiter :: "'p HTTPProxy \<Rightarrow> 'p world \<Rightarrow> 'p world" where
  "preHandle_rateLimiter hp w =
     (case rateLimiter hp of
        Some rl \<Rightarrow>
          (case invoke_r CallLimit (Limit rl) w of
             (Some err, w1) \<Rightarrow>
               tryFallback hp fallbackPluginRateLimiter (Some err) (SetStatusCode 429 w1)
           | (None, w1) \<Rightarrow> preHandle_adaptor hp w1)
      | None \<Rightarrow> preHandle_adaptor hp w)"

definition preHandle :: "'p HTTPProxy \<Rightarrow> 'p world \<Rightarrow> 'p world" where
  "preHandle hp w =
     (case validator hp of
        Some v \<Rightarrow>
          (case invoke_r CallValidate (Validate v) w of
             (Some err, w1) \<Rightarrow>
               Cancel (''validate failed: '' @ err) (SetStatusCode 400 w1)
           | (None, w1) \<Rightarrow> preHandle_rateLimiter hp w1)
      | None \<Rightarrow> preHandle_rateLimiter hp w)"

text \<open>
  \<open>handle\<close> (lines 169-188). The choice of \<open>pt, handler\<close> (lines 170-173) is
  \<open>handle_select\<close>: \<open>Filter\<close> is called only when a candidate backend is configured.
\<close>

definition handle_select ::
  "'p HTTPProxy \<Rightarrow> 'p world \<Rightarrow> (fallbackPlugin \<times> 'p stageFn) \<times> 'p world" where
  "handle_select hp w =
     (let dflt = (fallbackPluginBackend,
                  BackendHandle (backend hp) (backendResponseGotFuncs (backend hp)))
      in case candidateBackend hp of
           Some cb \<Rightarrow>
             (case invoke_r CallFilter (Filter cb) w of
                (True, w1) \<Rightarrow>
                  ((fallbackPluginCandidateBackend,
                    CandidateHandle cb (candidateResponseGotFuncs cb)), w1)
              | (False, w1) \<Rightarrow> (dflt, w1))
         | None \<Rightarrow> (dflt, w))"

definition handle :: "'p HTTPProxy \<Rightarrow> 'p world \<Rightarrow> 'p world" where
  "handle hp w =
     (case handle_select hp w of
        ((pt, handler), w1) \<Rightarrow>
          (case circuitBreaker hp of
             Some cb \<Rightarrow>
               (case invoke_r (CallProtect pt) (Protect cb handler) w1 of
                  (Some err, w2) \<Rightarrow>
                    tryFallback hp fallbackPluginCircuitBreaker (Some err) (SetStatusCode 503 w2)
                | (None, w2) \<Rightarrow> tryFallback hp pt None w2)
           | None \<Rightarrow> tryFallback hp pt None (invoke (CallHandler pt) handler w1)))"

text \<open>\<open>postHandle\<close> (lines 190-194).\<close>

definition postHandle :: "'p HTTPProxy \<Rightarrow> 'p world \<Rightarrow> 'p world" where
  "postHandle hp w =
     (case adaptor hp of
        Some a \<Rightarrow> invoke CallAdaptResponse (AdaptResponse a) w
      | None \<Rightarrow> w)"

text \<open>
  \<open>Handle\<close> (lines 119-135). \<open>Handle_body\<close> is the body after the \<open>defer\<close> statement
  (lines 124-134). The deferred call \<open>ctx.OnFinish(...)\<close> runs when \<open>Handle\<close> returns, on each
  of its three return paths; the function it registers is \<open>hp.rate1.Update(1)\<close>.
\<close>

definition Handle_body :: "'p HTTPProxy \<Rightarrow> 'p world \<Rightarrow> 'p world" where
  "Handle_body hp w =
     (let w1 = preHandle hp w in
      if Cancelled w1 then w1
      else (let w2 = handle hp w1 in
            if Cancelled w2 then w2
            else postHandle hp w2))"

definition Handle :: "'p HTTPProxy \<Rightarrow> 'p world \<Rightarrow> 'p world" where
  "Handle hp w = OnFinish (Update 1) (Handle_body hp w)"

text \<open>
  \<open>Close\<close> (lines 205-233). The \<open>Close\<close> methods of the stages return nothing; the model
  records the calls.
\<close>

definition Close :: "'p HTTPProxy \<Rightarrow> closeCall list \<Rightarrow> closeCall list" where
  "Close hp t0 =
     (let t1 = (if fallback hp \<noteq> None then t0 @ [CloseFallback] else t0);
          t2 = (if validator hp \<noteq> None then t1 @ [CloseValidator] else t1);
          t3 = (if rateLimiter hp \<noteq> None then t2 @ [CloseRateLimiter] else t2);
          t4 = (if circuitBreaker hp \<noteq> None then t3 @ [CloseCircuitBreaker] else t3);
          t5 = (if adaptor hp \<noteq> None then t4 @ [CloseAdaptor] else t4);
          t6 = (if mirrorBackend hp \<noteq> None then t5 @ [CloseMirrorBackend] else t5);
          t7 = (if candidateBackend hp \<noteq> None then t6 @ [CloseCandidateBackend] else t6);
          t8 = t7 @ [CloseBackend]
      in if compression hp \<noteq> None then t8 @ [CloseCompression] else t8)"

subsection \<open>Construction\<close>

text \<open>
  The struct \<open>Spec\<close>. The types of the sub-specifications belong to the packages of the
  stages and are a type parameter; an omitted optional field is \<open>None\<close>. \<open>Backend\<close> is
  required. The inlined \<open>MetaSpec\<close> is not read by \<open>New\<close> and is left out.
\<close>

record 's Spec =
  Server :: string
  Fallback :: "'s option"
  Validator :: "'s option"
  RateLimiter :: "'s option"
  CircuitBreaker :: "'s option"
  Adaptor :: "'s option"
  MirrorBackend :: "'s option"
  CandidateBackend :: "'s option"
  Backend :: 's
  Compression :: "'s option"

text \<open>
  The constructors of the stages and \<open>runtime.reload\<close> are code of other files: they are
  parameters. Each constructor receives its sub-specification and the runtime handle.
\<close>

record ('s, 'rt, 'p) plugins =
  reload :: "'s Spec \<Rightarrow> 'rt \<Rightarrow> 'rt"
  newProxyFallback :: "'s \<Rightarrow> 'rt \<Rightarrow> 'p proxyFallback"
  validator_New :: "'s \<Rightarrow> 'rt \<Rightarrow> 'p Validator"
  ratelimiter_New :: "'s \<Rightarrow> 'rt \<Rightarrow> 'p RateLimiter"
  circuitbreaker_New :: "'s \<Rightarrow> 'rt \<Rightarrow> 'p CircuitBreaker"
  adaptor_New :: "'s \<Rightarrow> 'rt \<Rightarrow> 'p Adaptor"
  mirrorbackend_New :: "'s \<Rightarrow> 'rt \<Rightarrow> 'p MirrorBackend"
  candidatebackend_New :: "'s \<Rightarrow> 'rt \<Rightarrow> 'p CandidateBackend"
  backend_New :: "'s \<Rightarrow> 'rt \<Rightarrow> 'p Backend"
  compression_New :: "'s \<Rightarrow> 'rt \<Rightarrow> 'p Compression"

text \<open>\<open>New\<close> (lines 67-110).\<close>

definition New :: "('s, 'rt, 'p) plugins \<Rightarrow> 's Spec \<Rightarrow> 'rt \<Rightarrow> 'p HTTPProxy" where
  "New env spec runtime0 =
     (let runtime = reload env spec runtime0;
          hp = \<lparr> fallback = (case Fallback spec of
                               Some s \<Rightarrow> Some (newProxyFallback env s runtime) | None \<Rightarrow> None),
                 validator = (case Validator spec of
                               Some s \<Rightarrow> Some (validator_New env s runtime) | None \<Rightarrow> None),
                 rateLimiter = (case RateLimiter spec of
                               Some s \<Rightarrow> Some (ratelimiter_New env s runtime) | None \<Rightarrow> None),
                 circuitBreaker = (case CircuitBreaker spec of
                               Some s \<Rightarrow> Some (circuitbreaker_New env s runtime) | None \<Rightarrow> None),
                 adaptor = (case Adaptor spec of
                               Some s \<Rightarrow> Some (adaptor_New env s runtime) | None \<Rightarrow> None),
                 mirrorBackend = (case MirrorBackend spec of
                               Some s \<Rightarrow> Some (mirrorbackend_New env s runtime) | None \<Rightarrow> None),
                 candidateBackend = (case CandidateBackend spec of
                               Some s \<Rightarrow> Some (candidatebackend_New env s runtime) | None \<Rightarrow> None),
                 backend = backend_New env (Backend spec) runtime,
                 compression = None \<rparr>
      in case Compression spec of
           Some s \<Rightarrow>
             (let comp = compression_New env s runtime;
                  hp1 = hp\<lparr>compression := Some comp\<rparr>;
                  hp2 = (case candidateBackend hp1 of
                           Some cb \<Rightarrow>
                             hp1\<lparr>candidateBackend :=
                                   Some (CandidateBackend_OnResponseGot (Compress comp) cb)\<rparr>
                         | None \<Rightarrow> hp1)
              in hp2\<lparr>backend := Backend_OnResponseGot (Compress comp) (backend hp2)\<rparr>)
         | None \<Rightarrow> hp)"

subsection \<open>Vocabulary of the statements\<close>

text \<open>The entries of a trace that are an entry into \<open>tryFallback\<close>.\<close>

fun is_TryFallback :: "call \<Rightarrow> bool" where
  "is_TryFallback (TryFallback pt err) = True"
| "is_TryFallback c = False"

text \<open>
  The calls of one consultation of the fallback manager: the entry, then the delegation to the
  responder when one is configured, or else the cancellation when the error is not nil.
\<close>

definition tryFallback_calls :: "'p HTTPProxy \<Rightarrow> fallbackPlugin \<Rightarrow> error option \<Rightarrow> call list" where
  "tryFallback_calls hp pt err =
     TryFallback pt err #
       (case fallback hp of
          Some f \<Rightarrow> [CallFallbackTryFallback pt err]
        | None \<Rightarrow> (case err of Some e \<Rightarrow> [CtxCancel e] | None \<Rightarrow> []))"



text \<open>
  The tag of the backend that \<open>handle\<close> selects, in the words of the specification: the
  candidate backend if and only if one is configured and its filter accepts the request.
\<close>

definition selected_tag :: "'p HTTPProxy \<Rightarrow> 'p HTTPContext \<Rightarrow> fallbackPlugin" where
  "selected_tag hp c =
     (case candidateBackend hp of
        Some cb \<Rightarrow> (if fst (Filter cb c) then fallbackPluginCandidateBackend
                   else fallbackPluginBackend)
      | None \<Rightarrow> fallbackPluginBackend)"

text \<open>The call of \<open>Filter\<close>, issued when a candidate backend is configured.\<close>

definition filter_calls :: "'p HTTPProxy \<Rightarrow> call list" where
  "filter_calls hp = (if candidateBackend hp = None then [] else [CallFilter])"

text \<open>
  The outcome of the validation step of pre-handle, on which the rate limiter is reached:
  the validator's result and context, or no error and the same context when no validator
  is configured; and the call the step issues.
\<close>

definition after_validator ::
  "'p HTTPProxy \<Rightarrow> 'p HTTPContext \<Rightarrow> error option \<times> 'p HTTPContext" where
  "after_validator hp c = (case validator hp of Some v \<Rightarrow> Validate v c | None \<Rightarrow> (None, c))"

definition validator_calls :: "'p HTTPProxy \<Rightarrow> call list" where
  "validator_calls hp = (if validator hp = None then [] else [CallValidate])"

text \<open>The calls that hand the selected handler over: directly, or to the circuit breaker.\<close>

fun is_handler_call :: "call \<Rightarrow> bool" where
  "is_handler_call (CallHandler pt) = True"
| "is_handler_call (CallProtect pt) = True"
| "is_handler_call c = False"

text \<open>
  The fixed order of release, and which stages of a configuration are to be released: the
  optional ones when present, the backend always.
\<close>

definition closeOrder :: "closeCall list" where
  "closeOrder =
     [CloseFallback, CloseValidator, CloseRateLimiter, CloseCircuitBreaker, CloseAdaptor,
      CloseMirrorBackend, CloseCandidateBackend, CloseBackend, CloseCompression]"

fun configured :: "'p HTTPProxy \<Rightarrow> closeCall \<Rightarrow> bool" where
  "configured hp CloseFallback = (fallback hp \<noteq> None)"
| "configured hp CloseValidator = (validator hp \<noteq> None)"
| "configured hp CloseRateLimiter = (rateLimiter hp \<noteq> None)"
| "configured hp CloseCircuitBreaker = (circuitBreaker hp \<noteq> None)"
| "configured hp CloseAdaptor = (adaptor hp \<noteq> None)"
| "configured hp CloseMirrorBackend = (mirrorBackend hp \<noteq> None)"
| "configured hp CloseCandidateBackend = (candidateBackend hp \<noteq> None)"
| "configured hp CloseBackend = True"
| "configured hp CloseCompression = (compression hp \<noteq> None)"

subsection \<open>Example configurations\<close>

text \<open>
  A context whose payload is a list of marks, stages that leave a mark or reject, and the
  configuration with the backend only.
\<close>

definition ctx_init :: "string list HTTPContext" where
  "ctx_init = \<lparr>statusCode = 0, cancelErr = None, finishFuncs = [], payload = []\<rparr>"

definition w_init :: "string list world" where
  "w_init = \<lparr>ctx = ctx_init, calls = []\<rparr>"

definition w_canary :: "string list world" where
  "w_canary = \<lparr>ctx = ctx_init\<lparr>payload := [''canary'']\<rparr>, calls = []\<rparr>"

definition mark :: "string \<Rightarrow> string list stageFn" where
  "mark s c = c\<lparr>payload := payload c @ [s]\<rparr>"

definition backend_ok :: "string list Backend" where
  "backend_ok =
     \<lparr>BackendHandle = (\<lambda>obs c. fold (\<lambda>f a. f a) obs ((mark ''backend'' c)\<lparr>statusCode := 200\<rparr>)),
      backendResponseGotFuncs = []\<rparr>"

definition candidate_ok :: "string list CandidateBackend" where
  "candidate_ok =
     \<lparr>Filter = (\<lambda>c. (payload c \<noteq> [], c)),
      CandidateHandle = (\<lambda>obs c. fold (\<lambda>f a. f a) obs ((mark ''candidate'' c)\<lparr>statusCode := 200\<rparr>)),
      candidateResponseGotFuncs = []\<rparr>"

definition validator_reject :: "string list Validator" where
  "validator_reject = \<lparr>Validate = (\<lambda>c. (Some ''bad request'', c))\<rparr>"

definition limiter_reject :: "string list RateLimiter" where
  "limiter_reject = \<lparr>Limit = (\<lambda>c. (Some ''too many requests'', c))\<rparr>"

definition breaker_open :: "string list CircuitBreaker" where
  "breaker_open = \<lparr>Protect = (\<lambda>handler c. (Some ''circuit is broken'', c))\<rparr>"

definition breaker_closed :: "string list CircuitBreaker" where
  "breaker_closed = \<lparr>Protect = (\<lambda>handler c. (None, handler c))\<rparr>"

definition adaptor_mark :: "string list Adaptor" where
  "adaptor_mark = \<lparr>AdaptRequest = mark ''adapt request'', AdaptResponse = mark ''adapt response''\<rparr>"



definition fallback_mock :: "string list proxyFallback" where
  "fallback_mock = \<lparr>fallback_tryFallback = (\<lambda>pt err c. (mark ''fallback'' c)\<lparr>statusCode := 200\<rparr>)\<rparr>"

definition hp_plain :: "string list HTTPProxy" where
  "hp_plain =
     \<lparr>fallback = None, validator = None, rateLimiter = None, circuitBreaker = None,
      adaptor = None, mirrorBackend = None, candidateBackend = None,
      backend = backend_ok, compression = None\<rparr>"

section \<open>Properties\<close>

subsection \<open>Basic facts about the context operations and the trace\<close>

lemma calls_record_call [simp]: "calls (record_call e w) = calls w @ [e]"
  by (simp add: record_call_def)

lemma ctx_record_call [simp]: "ctx (record_call e w) = ctx w"
  by (simp add: record_call_def)

lemma Cancelled_record_call [simp]: "Cancelled (record_call e w) = Cancelled w"
  by (simp add: Cancelled_def)

lemma calls_invoke [simp]: "calls (invoke e f w) = calls w @ [e]"
  by (simp add: invoke_def)

lemma ctx_invoke [simp]: "ctx (invoke e f w) = f (ctx w)"
  by (simp add: invoke_def)

lemma invoke_r_eq: "f (ctx w) = (r, c) \<Longrightarrow> invoke_r e f w = (r, record_call e (w\<lparr>ctx := c\<rparr>))"
  by (simp add: invoke_r_def)

lemma calls_SetStatusCode [simp]: "calls (SetStatusCode n w) = calls w @ [CtxSetStatusCode n]"
  by (simp add: SetStatusCode_def)

lemma ctx_SetStatusCode [simp]: "ctx (SetStatusCode n w) = (ctx w)\<lparr>statusCode := n\<rparr>"
  by (simp add: SetStatusCode_def)

lemma calls_Cancel [simp]: "calls (Cancel e w) = calls w @ [CtxCancel e]"
  by (simp add: Cancel_def)

lemma ctx_Cancel:
  "ctx (Cancel e w) = (if cancelErr (ctx w) = None then (ctx w)\<lparr>cancelErr := Some e\<rparr> else ctx w)"
  by (simp add: Cancel_def Cancelled_def)

lemma Cancelled_Cancel [simp]: "Cancelled (Cancel e w)"
  by (simp add: Cancel_def Cancelled_def)

lemma calls_OnFinish [simp]: "calls (OnFinish fn w) = calls w @ [CtxOnFinish]"
  by (simp add: OnFinish_def)

lemma ctx_OnFinish [simp]:
  "ctx (OnFinish fn w) = (ctx w)\<lparr>finishFuncs := finishFuncs (ctx w) @ [fn]\<rparr>"
  by (simp add: OnFinish_def)

lemma Cancelled_OnFinish [simp]: "Cancelled (OnFinish fn w) = Cancelled w"
  by (simp add: Cancelled_def)

lemma calls_tryFallback: "calls (tryFallback hp pt err w) = calls w @ tryFallback_calls hp pt err"
  by (simp add: tryFallback_def tryFallback_calls_def split: option.splits)

lemma ctx_tryFallback_Some:
  "fallback hp = Some f \<Longrightarrow> ctx (tryFallback hp pt err w) = fallback_tryFallback f pt err (ctx w)"
  by (simp add: tryFallback_def)

lemma ctx_tryFallback_None:
  "fallback hp = None \<Longrightarrow>
   ctx (tryFallback hp pt err w) =
     (case err of
        Some e \<Rightarrow> (if cancelErr (ctx w) = None then (ctx w)\<lparr>cancelErr := Some e\<rparr> else ctx w)
      | None \<Rightarrow> ctx w)"
  by (simp add: tryFallback_def ctx_Cancel Cancelled_def split: option.splits)

lemma calls_invoke_r: "calls (snd (invoke_r e f w)) = calls w @ [e]"
  by (simp add: invoke_r_def split: prod.splits)

lemma ctx_invoke_r: "ctx (snd (invoke_r e f w)) = snd (f (ctx w))"
  by (simp add: invoke_r_def split: prod.splits)

lemma fst_invoke_r: "fst (invoke_r e f w) = fst (f (ctx w))"
  by (simp add: invoke_r_def split: prod.splits)

lemma filter_tryFallback:
  assumes "\<not> P (TryFallback pt err)" and "\<not> P (CallFallbackTryFallback pt err)"
    and "\<And>e. \<not> P (CtxCancel e)"
  shows "filter P (calls (tryFallback hp pt err w)) = filter P (calls w)"
  using assms by (simp add: calls_tryFallback tryFallback_calls_def split: option.splits)

lemma filter_preHandle_adaptor:
  assumes "\<not> P CallAdaptRequest" and "\<not> P CallMirrorHandle"
  shows "filter P (calls (preHandle_adaptor hp w)) = filter P (calls w)"
  using assms by (simp add: preHandle_adaptor_def Let_def split: option.splits)

lemma filter_preHandle_rateLimiter:
  assumes "\<not> P CallAdaptRequest" and "\<not> P CallMirrorHandle" and "\<not> P CallLimit"
    and "\<not> P (CtxSetStatusCode 429)"
    and "\<And>err. \<not> P (TryFallback fallbackPluginRateLimiter err)"
    and "\<And>err. \<not> P (CallFallbackTryFallback fallbackPluginRateLimiter err)"
    and "\<And>e. \<not> P (CtxCancel e)"
  shows "filter P (calls (preHandle_rateLimiter hp w)) = filter P (calls w)"
proof (cases "rateLimiter hp")
  case None
  then show ?thesis
    using assms by (simp add: preHandle_rateLimiter_def filter_preHandle_adaptor)
next
  case (Some rl)
  obtain r c where lim: "Limit rl (ctx w) = (r, c)"
    by (cases "Limit rl (ctx w)")
  show ?thesis
  proof (cases r)
    case None
    then show ?thesis
      using assms Some lim
      by (simp add: preHandle_rateLimiter_def invoke_r_eq filter_preHandle_adaptor)
  next
    case (Some err)
    then show ?thesis
      using assms \<open>rateLimiter hp = Some rl\<close> lim
      by (simp add: preHandle_rateLimiter_def invoke_r_eq filter_tryFallback)
  qed
qed

lemma filter_preHandle:
  assumes "\<not> P CallAdaptRequest" and "\<not> P CallMirrorHandle" and "\<not> P CallLimit"
    and "\<not> P (CtxSetStatusCode 429)"
    and "\<And>err. \<not> P (TryFallback fallbackPluginRateLimiter err)"
    and "\<And>err. \<not> P (CallFallbackTryFallback fallbackPluginRateLimiter err)"
    and "\<And>e. \<not> P (CtxCancel e)"
    and "\<not> P CallValidate" and "\<not> P (CtxSetStatusCode 400)"
  shows "filter P (calls (preHandle hp w)) = filter P (calls w)"
proof (cases "validator hp")
  case None
  then show ?thesis
    using assms by (simp add: preHandle_def filter_preHandle_rateLimiter)
next
  case (Some v)
  obtain r c where val: "Validate v (ctx w) = (r, c)"
    by (cases "Validate v (ctx w)")
  show ?thesis
  proof (cases r)
    case None
    then show ?thesis
      using assms Some val
      by (simp add: preHandle_def invoke_r_eq filter_preHandle_rateLimiter)
  next
    case (Some err)
    then show ?thesis
      using assms \<open>validator hp = Some v\<close> val
      by (simp add: preHandle_def invoke_r_eq)
  qed
qed

lemma calls_handle_select:
  "calls (snd (handle_select hp w)) =
     calls w @ (if candidateBackend hp = None then [] else [CallFilter])"
  by (simp add: handle_select_def Let_def invoke_r_def split: option.splits prod.splits bool.splits)

lemma filter_handle:
  assumes "\<not> P CallFilter" and "\<And>pt. \<not> P (CallHandler pt)" and "\<And>pt. \<not> P (CallProtect pt)"
    and "\<not> P (CtxSetStatusCode 503)"
    and "\<And>pt err. \<not> P (TryFallback pt err)"
    and "\<And>pt err. \<not> P (CallFallbackTryFallback pt err)"
    and "\<And>e. \<not> P (CtxCancel e)"
  shows "filter P (calls (handle hp w)) = filter P (calls w)"
proof -
  obtain pt handler w1 where sel: "handle_select hp w = ((pt, handler), w1)"
    by (metis surj_pair)
  have w1: "filter P (calls w1) = filter P (calls w)"
    using calls_handle_select [of hp w] sel assms(1) by simp
  show ?thesis
  proof (cases "circuitBreaker hp")
    case None
    then show ?thesis
      using sel w1 assms by (simp add: handle_def filter_tryFallback)
  next
    case (Some cb)
    obtain r c where prot: "Protect cb handler (ctx w1) = (r, c)"
      by (cases "Protect cb handler (ctx w1)")
    show ?thesis
    proof (cases r)
      case None
      then show ?thesis
        using sel w1 assms Some prot by (simp add: handle_def invoke_r_eq filter_tryFallback)
    next
      case (Some err)
      then show ?thesis
        using sel w1 assms \<open>circuitBreaker hp = Some cb\<close> prot
        by (simp add: handle_def invoke_r_eq filter_tryFallback)
    qed
  qed
qed

lemma filter_postHandle:
  assumes "\<not> P CallAdaptResponse"
  shows "filter P (calls (postHandle hp w)) = filter P (calls w)"
  using assms by (simp add: postHandle_def split: option.splits)




lemma Handle_body_no_OnFinish:
  "filter (\<lambda>c. c = CtxOnFinish) (calls (Handle_body hp w)) = filter (\<lambda>c. c = CtxOnFinish) (calls w)"
proof -
  have pre: "\<And>w. filter (\<lambda>c. c = CtxOnFinish) (calls (preHandle hp w)) = filter (\<lambda>c. c = CtxOnFinish) (calls w)"
    by (rule filter_preHandle) simp_all
  have han: "\<And>w. filter (\<lambda>c. c = CtxOnFinish) (calls (handle hp w)) = filter (\<lambda>c. c = CtxOnFinish) (calls w)"
    by (rule filter_handle) simp_all
  have post: "\<And>w. filter (\<lambda>c. c = CtxOnFinish) (calls (postHandle hp w)) = filter (\<lambda>c. c = CtxOnFinish) (calls w)"
    by (rule filter_postHandle) simp_all
  show ?thesis
    by (simp add: Handle_body_def Let_def pre han post)
qed

lemma world_updates:
  fixes w :: "'p world"
  shows "w\<lparr>ctx := c, calls := t\<rparr> = \<lparr>ctx = c, calls = t\<rparr>"
  by (cases w) simp

lemma handle_select_tag: "fst (fst (handle_select hp w)) = selected_tag hp (ctx w)"
  by (simp add: handle_select_def selected_tag_def invoke_r_def Let_def
      split: option.splits prod.splits bool.splits)

lemma handle_select_calls: "calls (snd (handle_select hp w)) = calls w @ filter_calls hp"
  by (simp add: calls_handle_select filter_calls_def)

lemma preHandle_limited:
  assumes "rateLimiter hp = Some rl" and "after_validator hp (ctx w) = (None, c1)"
    and "Limit rl c1 = (Some err, c2)"
  shows "preHandle hp w =
      tryFallback hp fallbackPluginRateLimiter (Some err)
        \<lparr>ctx = c2\<lparr>statusCode := 429\<rparr>,
         calls = calls w @ validator_calls hp @ [CallLimit, CtxSetStatusCode 429]\<rparr>"
proof (cases "validator hp")
  case None
  then show ?thesis
    using assms
    by (simp add: preHandle_def preHandle_rateLimiter_def after_validator_def
        validator_calls_def invoke_r_eq SetStatusCode_def record_call_def world_updates)
next
  case (Some v)
  then show ?thesis
    using assms
    by (simp add: preHandle_def preHandle_rateLimiter_def after_validator_def
        validator_calls_def invoke_r_eq SetStatusCode_def record_call_def world_updates)
qed

lemma Handle_cancelled_in_preHandle:
  "Cancelled (preHandle hp w) \<Longrightarrow> Handle hp w = OnFinish (Update 1) (preHandle hp w)"
  by (simp add: Handle_def Handle_body_def Let_def)

lemma calls_handle:
  assumes "handle_select hp w = ((pt, handler), w1)"
  shows "calls (handle hp w) =
      calls w @ filter_calls hp
        @ (case circuitBreaker hp of
             None \<Rightarrow> CallHandler pt # tryFallback_calls hp pt None
           | Some cb \<Rightarrow>
               CallProtect pt #
                 (case fst (Protect cb handler (ctx w1)) of
                    None \<Rightarrow> tryFallback_calls hp pt None
                  | Some e \<Rightarrow>
                      CtxSetStatusCode 503
                        # tryFallback_calls hp fallbackPluginCircuitBreaker (Some e)))"
proof -
  have w1: "calls w1 = calls w @ filter_calls hp"
    using handle_select_calls [of hp w] assms by simp
  show ?thesis
  proof (cases "circuitBreaker hp")
    case None
    then show ?thesis
      using assms w1 by (simp add: handle_def calls_tryFallback)
  next
    case (Some cb)
    obtain r c where prot: "Protect cb handler (ctx w1) = (r, c)"
      by (cases "Protect cb handler (ctx w1)")
    show ?thesis
      using assms w1 Some prot
      by (cases r) (simp_all add: handle_def invoke_r_eq calls_tryFallback)
  qed
qed

lemma calls_Handle_not_cancelled:
  assumes "\<not> Cancelled (preHandle hp w)"
  shows "calls (Handle hp w) =
      calls (handle hp (preHandle hp w))
        @ (if \<not> Cancelled (handle hp (preHandle hp w)) \<and> adaptor hp \<noteq> None
           then [CallAdaptResponse] else [])
        @ [CtxOnFinish]"
  using assms
  by (simp add: Handle_def Handle_body_def Let_def postHandle_def split: option.splits)

lemma Close_eq: "Close hp t = t @ filter (configured hp) closeOrder"
  by (simp add: Close_def closeOrder_def Let_def)

lemma count_closeOrder: "count_list closeOrder s = 1"
  by (cases s) (simp_all add: closeOrder_def)

lemma count_list_filter: "count_list (filter P xs) x = (if P x then count_list xs x else 0)"
  by (induction xs) auto

subsection \<open>The fallback manager\<close>

text \<open>
  Claim C5. \<open>tryFallback\<close> with no fallback responder configured: a non-nil error cancels
  the request with exactly that error (one \<open>Cancel\<close> call with it; the context changes in
  the cancellation reason only, and a request cancelled before keeps its first reason, the
  flag being settable once), and a nil error leaves the context unchanged. With a responder
  configured the context is whatever the responder makes of it, given the stage tag and the
  error, and the manager issues no call but the delegation: it never cancels.
\<close>

theorem tryFallback_policy:
  "(fallback hp = None \<longrightarrow>
      tryFallback hp pt (Some e) w = Cancel e (record_call (TryFallback pt (Some e)) w)
    \<and> calls (tryFallback hp pt (Some e) w) = calls w @ [TryFallback pt (Some e), CtxCancel e]
    \<and> Cancelled (tryFallback hp pt (Some e) w)
    \<and> ctx (tryFallback hp pt (Some e) w) =
        (if Cancelled w then ctx w else (ctx w)\<lparr>cancelErr := Some e\<rparr>)
    \<and> ctx (tryFallback hp pt None w) = ctx w
    \<and> calls (tryFallback hp pt None w) = calls w @ [TryFallback pt None])
   \<and> (\<forall>f. fallback hp = Some f \<longrightarrow>
      ctx (tryFallback hp pt err w) = fallback_tryFallback f pt err (ctx w)
    \<and> calls (tryFallback hp pt err w) =
        calls w @ [TryFallback pt err, CallFallbackTryFallback pt err])"
  by (auto simp: tryFallback_def Cancel_def Cancelled_def Let_def)

theorem tryFallback_policy_witness:
  "fallback hp_plain = None
   \<and> calls (tryFallback hp_plain fallbackPluginBackend (Some ''boom'') w_init) =
       [TryFallback fallbackPluginBackend (Some ''boom''), CtxCancel ''boom'']
   \<and> ctx (tryFallback hp_plain fallbackPluginBackend (Some ''boom'') w_init) =
       ctx_init\<lparr>cancelErr := Some ''boom''\<rparr>
   \<and> ctx (tryFallback hp_plain fallbackPluginBackend None w_init) = ctx_init
   \<and> fallback (hp_plain\<lparr>fallback := Some fallback_mock\<rparr>) = Some fallback_mock
   \<and> ctx (tryFallback (hp_plain\<lparr>fallback := Some fallback_mock\<rparr>)
            fallbackPluginCircuitBreaker (Some ''boom'') w_init) =
       ctx_init\<lparr>statusCode := 200, payload := [''fallback'']\<rparr>"
  using tryFallback_policy [where hp = hp_plain and pt = fallbackPluginBackend
      and e = "''boom''" and w = w_init and err = None]
    tryFallback_policy [where hp = "hp_plain\<lparr>fallback := Some fallback_mock\<rparr>"
      and pt = fallbackPluginCircuitBreaker and e = "''boom''" and w = w_init
      and err = "Some ''boom''"]
  by (simp add: tryFallback_def invoke_def record_call_def Cancel_def Cancelled_def Let_def
      hp_plain_def backend_ok_def mark_def w_init_def ctx_init_def fallback_mock_def)

subsection \<open>The handle phase\<close>

text \<open>
  Claim C1. With no circuit breaker configured, the handle phase calls \<open>Filter\<close> when a
  candidate backend is configured, selects the candidate backend if and only if one is
  configured and its filter returns true (otherwise the default backend), calls the selected
  handler directly, and then consults the fallback manager exactly once, with a nil error and
  the tag of the selected backend, whatever the handler did.
\<close>

theorem handle_without_circuitBreaker:
  assumes "circuitBreaker hp = None"
  shows
    "calls (handle hp w) =
        calls w @ filter_calls hp
          @ [CallHandler (selected_tag hp (ctx w)), TryFallback (selected_tag hp (ctx w)) None]
          @ (if fallback hp = None then []
             else [CallFallbackTryFallback (selected_tag hp (ctx w)) None])
     \<and> filter is_TryFallback (calls (handle hp w)) =
         filter is_TryFallback (calls w) @ [TryFallback (selected_tag hp (ctx w)) None]
     \<and> (selected_tag hp (ctx w) = fallbackPluginCandidateBackend) =
         (\<exists>cb. candidateBackend hp = Some cb \<and> fst (Filter cb (ctx w)))
     \<and> (selected_tag hp (ctx w) \<noteq> fallbackPluginCandidateBackend) =
         (selected_tag hp (ctx w) = fallbackPluginBackend)
     \<and> (candidateBackend hp = None \<longrightarrow>
          handle hp w =
            tryFallback hp fallbackPluginBackend None
              (invoke (CallHandler fallbackPluginBackend)
                 (BackendHandle (backend hp) (backendResponseGotFuncs (backend hp))) w))
     \<and> (\<forall>cb c. candidateBackend hp = Some cb \<and> Filter cb (ctx w) = (True, c) \<longrightarrow>
          handle hp w =
            tryFallback hp fallbackPluginCandidateBackend None
              (invoke (CallHandler fallbackPluginCandidateBackend)
                 (CandidateHandle cb (candidateResponseGotFuncs cb))
                 (record_call CallFilter (w\<lparr>ctx := c\<rparr>))))
     \<and> (\<forall>cb c. candidateBackend hp = Some cb \<and> Filter cb (ctx w) = (False, c) \<longrightarrow>
          handle hp w =
            tryFallback hp fallbackPluginBackend None
              (invoke (CallHandler fallbackPluginBackend)
                 (BackendHandle (backend hp) (backendResponseGotFuncs (backend hp)))
                 (record_call CallFilter (w\<lparr>ctx := c\<rparr>))))"
proof -
  obtain pt handler w1 where sel: "handle_select hp w = ((pt, handler), w1)"
    by (metis surj_pair)
  have pt: "pt = selected_tag hp (ctx w)"
    using handle_select_tag [of hp w] sel by simp
  have w1: "calls w1 = calls w @ filter_calls hp"
    using handle_select_calls [of hp w] sel by simp
  have h: "handle hp w = tryFallback hp pt None (invoke (CallHandler pt) handler w1)"
    using assms sel by (simp add: handle_def)
  have tr: "calls (handle hp w) =
      calls w @ filter_calls hp @ [CallHandler pt, TryFallback pt None]
        @ (if fallback hp = None then [] else [CallFallbackTryFallback pt None])"
    by (simp add: h calls_tryFallback w1 tryFallback_calls_def split: option.splits)
  have cnt: "filter is_TryFallback (calls (handle hp w)) =
      filter is_TryFallback (calls w) @ [TryFallback pt None]"
    by (simp add: tr filter_calls_def)
  have iff: "(selected_tag hp (ctx w) = fallbackPluginCandidateBackend) =
      (\<exists>cb. candidateBackend hp = Some cb \<and> fst (Filter cb (ctx w)))"
    by (simp add: selected_tag_def split: option.splits)
  have two: "(selected_tag hp (ctx w) \<noteq> fallbackPluginCandidateBackend) =
      (selected_tag hp (ctx w) = fallbackPluginBackend)"
    by (simp add: selected_tag_def split: option.splits)
  have e1: "candidateBackend hp = None \<longrightarrow>
      handle hp w =
        tryFallback hp fallbackPluginBackend None
          (invoke (CallHandler fallbackPluginBackend)
             (BackendHandle (backend hp) (backendResponseGotFuncs (backend hp))) w)"
    using assms by (simp add: handle_def handle_select_def)
  have e2: "\<forall>cb c. candidateBackend hp = Some cb \<and> Filter cb (ctx w) = (True, c) \<longrightarrow>
      handle hp w =
        tryFallback hp fallbackPluginCandidateBackend None
          (invoke (CallHandler fallbackPluginCandidateBackend)
             (CandidateHandle cb (candidateResponseGotFuncs cb))
             (record_call CallFilter (w\<lparr>ctx := c\<rparr>)))"
    using assms by (auto simp: handle_def handle_select_def invoke_r_def)
  have e3: "\<forall>cb c. candidateBackend hp = Some cb \<and> Filter cb (ctx w) = (False, c) \<longrightarrow>
      handle hp w =
        tryFallback hp fallbackPluginBackend None
          (invoke (CallHandler fallbackPluginBackend)
             (BackendHandle (backend hp) (backendResponseGotFuncs (backend hp)))
             (record_call CallFilter (w\<lparr>ctx := c\<rparr>)))"
    using assms by (auto simp: handle_def handle_select_def invoke_r_def)
  show ?thesis
    using tr cnt iff two e1 e2 e3 unfolding pt by blast
qed

theorem handle_without_circuitBreaker_witness:
  "circuitBreaker (hp_plain\<lparr>candidateBackend := Some candidate_ok\<rparr>) = None
   \<and> calls (handle (hp_plain\<lparr>candidateBackend := Some candidate_ok\<rparr>) w_canary) =
       [CallFilter, CallHandler fallbackPluginCandidateBackend,
        TryFallback fallbackPluginCandidateBackend None]
   \<and> payload (ctx (handle (hp_plain\<lparr>candidateBackend := Some candidate_ok\<rparr>) w_canary)) =
       [''canary'', ''candidate'']
   \<and> calls (handle (hp_plain\<lparr>candidateBackend := Some candidate_ok\<rparr>) w_init) =
       [CallFilter, CallHandler fallbackPluginBackend, TryFallback fallbackPluginBackend None]
   \<and> payload (ctx (handle (hp_plain\<lparr>candidateBackend := Some candidate_ok\<rparr>) w_init)) =
       [''backend'']
   \<and> candidateBackend hp_plain = None
   \<and> calls (handle hp_plain w_init) =
       [CallHandler fallbackPluginBackend, TryFallback fallbackPluginBackend None]"
  using handle_without_circuitBreaker [where hp = "hp_plain\<lparr>candidateBackend := Some candidate_ok\<rparr>"
      and w = w_canary]
    handle_without_circuitBreaker [where hp = "hp_plain\<lparr>candidateBackend := Some candidate_ok\<rparr>"
      and w = w_init]
    handle_without_circuitBreaker [where hp = hp_plain and w = w_init]
  by (simp add: handle_def handle_select_def invoke_r_def SetStatusCode_def tryFallback_def
      invoke_def record_call_def Cancel_def Cancelled_def Let_def hp_plain_def
      backend_ok_def mark_def w_init_def ctx_init_def candidate_ok_def w_canary_def
      selected_tag_def filter_calls_def)

text \<open>
  Claim C4. With a circuit breaker configured, the selected handler is handed to \<open>Protect\<close>.
  When \<open>Protect\<close> returns an error, the status code is set to 503 and then the fallback
  manager is consulted with the tag circuit-breaker and that error (without a responder the
  request ends cancelled with status 503). When \<open>Protect\<close> returns nil, the fallback manager
  is consulted with the tag of the selected backend and a nil error.
\<close>

theorem handle_with_circuitBreaker:
  assumes "circuitBreaker hp = Some cb" and "handle_select hp w = ((pt, handler), w1)"
    and "Protect cb handler (ctx w1) = (r, c2)"
  shows
    "pt = selected_tag hp (ctx w)
     \<and> calls w1 = calls w @ filter_calls hp
     \<and> (\<forall>err. r = Some err \<longrightarrow>
          handle hp w =
            tryFallback hp fallbackPluginCircuitBreaker (Some err)
              \<lparr>ctx = c2\<lparr>statusCode := 503\<rparr>,
               calls = calls w1 @ [CallProtect pt, CtxSetStatusCode 503]\<rparr>
        \<and> calls (handle hp w) =
            calls w1 @ [CallProtect pt, CtxSetStatusCode 503]
              @ tryFallback_calls hp fallbackPluginCircuitBreaker (Some err)
        \<and> filter is_TryFallback (calls (handle hp w)) =
            filter is_TryFallback (calls w)
              @ [TryFallback fallbackPluginCircuitBreaker (Some err)]
        \<and> (fallback hp = None \<longrightarrow>
             statusCode (ctx (handle hp w)) = 503 \<and> Cancelled (handle hp w)))
     \<and> (r = None \<longrightarrow>
          handle hp w =
            tryFallback hp pt None \<lparr>ctx = c2, calls = calls w1 @ [CallProtect pt]\<rparr>
        \<and> calls (handle hp w) =
            calls w1 @ [CallProtect pt] @ tryFallback_calls hp pt None
        \<and> filter is_TryFallback (calls (handle hp w)) =
            filter is_TryFallback (calls w) @ [TryFallback pt None])"
proof -
  have pt: "pt = selected_tag hp (ctx w)"
    using handle_select_tag [of hp w] assms(2) by simp
  have w1: "calls w1 = calls w @ filter_calls hp"
    using handle_select_calls [of hp w] assms(2) by simp
  have w1f: "filter is_TryFallback (calls w1) = filter is_TryFallback (calls w)"
    by (simp add: w1 filter_calls_def)
  have rej: "\<forall>err. r = Some err \<longrightarrow>
      handle hp w =
        tryFallback hp fallbackPluginCircuitBreaker (Some err)
          \<lparr>ctx = c2\<lparr>statusCode := 503\<rparr>,
           calls = calls w1 @ [CallProtect pt, CtxSetStatusCode 503]\<rparr>"
    using assms
    by (simp add: handle_def invoke_r_eq SetStatusCode_def record_call_def world_updates)
  have rej_tr: "\<forall>err. r = Some err \<longrightarrow>
      calls (handle hp w) =
        calls w1 @ [CallProtect pt, CtxSetStatusCode 503]
          @ tryFallback_calls hp fallbackPluginCircuitBreaker (Some err)"
    using rej by (simp add: calls_tryFallback)
  have rej_cnt: "\<forall>err. r = Some err \<longrightarrow>
      filter is_TryFallback (calls (handle hp w)) =
        filter is_TryFallback (calls w) @ [TryFallback fallbackPluginCircuitBreaker (Some err)]"
    using rej_tr w1f by (simp add: tryFallback_calls_def split: option.splits)
  have rej_st: "\<forall>err. r = Some err \<longrightarrow> fallback hp = None \<longrightarrow>
      statusCode (ctx (handle hp w)) = 503 \<and> Cancelled (handle hp w)"
    using rej by (simp add: tryFallback_def Let_def ctx_Cancel)
  have ok: "r = None \<longrightarrow>
      handle hp w = tryFallback hp pt None \<lparr>ctx = c2, calls = calls w1 @ [CallProtect pt]\<rparr>"
    using assms by (simp add: handle_def invoke_r_eq record_call_def world_updates)
  have ok_tr: "r = None \<longrightarrow>
      calls (handle hp w) = calls w1 @ [CallProtect pt] @ tryFallback_calls hp pt None"
    using ok by (simp add: calls_tryFallback)
  have ok_cnt: "r = None \<longrightarrow>
      filter is_TryFallback (calls (handle hp w)) =
        filter is_TryFallback (calls w) @ [TryFallback pt None]"
    using ok_tr w1f by (simp add: tryFallback_calls_def split: option.splits)
  show ?thesis
    using pt w1 rej rej_tr rej_cnt rej_st ok ok_tr ok_cnt by blast
qed

theorem handle_with_circuitBreaker_witness:
  "circuitBreaker (hp_plain\<lparr>circuitBreaker := Some breaker_open\<rparr>) = Some breaker_open
   \<and> handle_select (hp_plain\<lparr>circuitBreaker := Some breaker_open\<rparr>) w_init =
       ((fallbackPluginBackend, BackendHandle backend_ok []), w_init)
   \<and> Protect breaker_open (BackendHandle backend_ok []) (ctx w_init) =
       (Some ''circuit is broken'', ctx_init)
   \<and> calls (handle (hp_plain\<lparr>circuitBreaker := Some breaker_open\<rparr>) w_init) =
       [CallProtect fallbackPluginBackend, CtxSetStatusCode 503,
        TryFallback fallbackPluginCircuitBreaker (Some ''circuit is broken''),
        CtxCancel ''circuit is broken'']
   \<and> statusCode (ctx (handle (hp_plain\<lparr>circuitBreaker := Some breaker_open\<rparr>) w_init)) = 503
   \<and> circuitBreaker (hp_plain\<lparr>circuitBreaker := Some breaker_closed,
        candidateBackend := Some candidate_ok\<rparr>) = Some breaker_closed
   \<and> fst (Protect breaker_closed (CandidateHandle candidate_ok []) (ctx w_canary)) = None
   \<and> calls (handle (hp_plain\<lparr>circuitBreaker := Some breaker_closed,
        candidateBackend := Some candidate_ok\<rparr>) w_canary) =
       [CallFilter, CallProtect fallbackPluginCandidateBackend,
        TryFallback fallbackPluginCandidateBackend None]
   \<and> ctx (handle (hp_plain\<lparr>circuitBreaker := Some breaker_closed,
        candidateBackend := Some candidate_ok\<rparr>) w_canary) =
       ctx_init\<lparr>statusCode := 200, payload := [''canary'', ''candidate'']\<rparr>"
  using handle_with_circuitBreaker [where hp = "hp_plain\<lparr>circuitBreaker := Some breaker_open\<rparr>"
      and cb = breaker_open and w = w_init and pt = fallbackPluginBackend
      and handler = "BackendHandle backend_ok []" and ?w1.0 = w_init
      and r = "Some ''circuit is broken''" and ?c2.0 = ctx_init]
    handle_with_circuitBreaker [where hp = "hp_plain\<lparr>circuitBreaker := Some breaker_closed,
        candidateBackend := Some candidate_ok\<rparr>"
      and cb = breaker_closed and w = w_canary and pt = fallbackPluginCandidateBackend
      and handler = "CandidateHandle candidate_ok []"
      and ?w1.0 = "record_call CallFilter w_canary"
      and r = None
      and ?c2.0 = "ctx_init\<lparr>statusCode := 200, payload := [''canary'', ''candidate'']\<rparr>"]
  by (simp add: handle_def handle_select_def invoke_r_def SetStatusCode_def tryFallback_def
      invoke_def record_call_def Cancel_def Cancelled_def Let_def hp_plain_def
      backend_ok_def mark_def w_init_def ctx_init_def candidate_ok_def w_canary_def
      breaker_open_def breaker_closed_def selected_tag_def filter_calls_def
      tryFallback_calls_def)

subsection \<open>The pre-handle phase\<close>

text \<open>
  Claim C2. When the validator returns an error, \<open>Handle\<close> issues exactly the calls
  \<open>Validate\<close>, \<open>SetStatusCode(400)\<close>, \<open>Cancel\<close> and the deferred \<open>OnFinish\<close>: the status
  code is 400, the request is cancelled, the reason being the validation error wrapped as
  "validate failed: ..." (a request cancelled before keeps its first reason), the fallback
  manager is not consulted and no later stage runs.
\<close>

theorem validation_failure:
  assumes "validator hp = Some v" and "Validate v (ctx w) = (Some err, c)"
  shows
    "calls (Handle hp w) =
        calls w @ [CallValidate, CtxSetStatusCode 400,
                   CtxCancel (''validate failed: '' @ err), CtxOnFinish]
     \<and> ctx (Handle hp w) =
         c\<lparr>statusCode := 400,
           cancelErr := Some (case cancelErr c of
                                None \<Rightarrow> ''validate failed: '' @ err
                              | Some first \<Rightarrow> first),
           finishFuncs := finishFuncs c @ [Update 1]\<rparr>
     \<and> statusCode (ctx (Handle hp w)) = 400
     \<and> Cancelled (Handle hp w)
     \<and> filter is_TryFallback (calls (Handle hp w)) = filter is_TryFallback (calls w)"
proof -
  have pre: "preHandle hp w =
      Cancel (''validate failed: '' @ err)
        (SetStatusCode 400 (record_call CallValidate (w\<lparr>ctx := c\<rparr>)))"
    using assms by (simp add: preHandle_def invoke_r_eq)
  have canc: "Cancelled (preHandle hp w)"
    by (simp add: pre)
  have H: "Handle hp w = OnFinish (Update 1) (preHandle hp w)"
    using canc by (simp add: Handle_def Handle_body_def Let_def)
  have tr: "calls (Handle hp w) =
      calls w @ [CallValidate, CtxSetStatusCode 400,
                 CtxCancel (''validate failed: '' @ err), CtxOnFinish]"
    by (simp add: H pre)
  have cx: "ctx (Handle hp w) =
      c\<lparr>statusCode := 400,
        cancelErr := Some (case cancelErr c of
                             None \<Rightarrow> ''validate failed: '' @ err
                           | Some first \<Rightarrow> first),
        finishFuncs := finishFuncs c @ [Update 1]\<rparr>"
    by (auto simp: H pre ctx_Cancel split: option.splits)
  have st: "statusCode (ctx (Handle hp w)) = 400"
    by (simp add: cx)
  have cd: "Cancelled (Handle hp w)"
    by (simp add: H canc)
  have nf: "filter is_TryFallback (calls (Handle hp w)) = filter is_TryFallback (calls w)"
    by (simp add: tr)
  show ?thesis
    using tr cx st cd nf by blast
qed

theorem validation_failure_witness:
  "validator (hp_plain\<lparr>validator := Some validator_reject, fallback := Some fallback_mock,
       rateLimiter := Some limiter_reject, adaptor := Some adaptor_mark\<rparr>) = Some validator_reject
   \<and> Validate validator_reject (ctx w_init) = (Some ''bad request'', ctx_init)
   \<and> calls (Handle (hp_plain\<lparr>validator := Some validator_reject, fallback := Some fallback_mock,
       rateLimiter := Some limiter_reject, adaptor := Some adaptor_mark\<rparr>) w_init) =
       [CallValidate, CtxSetStatusCode 400, CtxCancel ''validate failed: bad request'',
        CtxOnFinish]
   \<and> statusCode (ctx (Handle (hp_plain\<lparr>validator := Some validator_reject,
       fallback := Some fallback_mock, rateLimiter := Some limiter_reject,
       adaptor := Some adaptor_mark\<rparr>) w_init)) = 400
   \<and> cancelErr (ctx (Handle (hp_plain\<lparr>validator := Some validator_reject,
       fallback := Some fallback_mock, rateLimiter := Some limiter_reject,
       adaptor := Some adaptor_mark\<rparr>) w_init)) = Some ''validate failed: bad request''"
  using validation_failure [where hp = "hp_plain\<lparr>validator := Some validator_reject,
       fallback := Some fallback_mock, rateLimiter := Some limiter_reject,
       adaptor := Some adaptor_mark\<rparr>" and v = validator_reject and w = w_init
       and err = "''bad request''" and c = ctx_init]
  by (simp add: Handle_def Handle_body_def preHandle_def preHandle_rateLimiter_def
      preHandle_adaptor_def postHandle_def OnFinish_def handle_def handle_select_def
      invoke_r_def SetStatusCode_def tryFallback_def invoke_def record_call_def Cancel_def
      Cancelled_def Let_def hp_plain_def backend_ok_def mark_def w_init_def ctx_init_def
      validator_reject_def fallback_mock_def limiter_reject_def adaptor_mark_def)

text \<open>
  Claim C3, as amended. When the rate limiter is reached and returns an error, the status
  code is set to 429 before the fallback manager is consulted, and pre-handle consults the
  fallback manager exactly once, with the tag rate-limiter and the limiter's error. When
  the request is cancelled as pre-handle returns, which is always so when no fallback
  responder is configured, this is the only consultation of the whole request and no
  handler is called: with a backend and a rejecting rate limiter only, the backend handler
  is never invoked.
\<close>

theorem rate_limit_rejection:
  assumes "rateLimiter hp = Some rl" and "after_validator hp (ctx w) = (None, c1)"
    and "Limit rl c1 = (Some err, c2)"
  shows
    "preHandle hp w =
        tryFallback hp fallbackPluginRateLimiter (Some err)
          \<lparr>ctx = c2\<lparr>statusCode := 429\<rparr>,
           calls = calls w @ validator_calls hp @ [CallLimit, CtxSetStatusCode 429]\<rparr>
     \<and> calls (preHandle hp w) =
         calls w @ validator_calls hp @ [CallLimit, CtxSetStatusCode 429]
           @ tryFallback_calls hp fallbackPluginRateLimiter (Some err)
     \<and> filter is_TryFallback (calls (preHandle hp w)) =
         filter is_TryFallback (calls w) @ [TryFallback fallbackPluginRateLimiter (Some err)]
     \<and> (Cancelled (preHandle hp w) \<longrightarrow>
          calls (Handle hp w) = calls (preHandle hp w) @ [CtxOnFinish]
        \<and> filter is_TryFallback (calls (Handle hp w)) =
            filter is_TryFallback (calls w) @ [TryFallback fallbackPluginRateLimiter (Some err)]
        \<and> filter is_handler_call (calls (Handle hp w)) = filter is_handler_call (calls w))
     \<and> (fallback hp = None \<longrightarrow>
          Cancelled (preHandle hp w)
        \<and> statusCode (ctx (Handle hp w)) = 429
        \<and> calls (Handle hp w) =
            calls w @ validator_calls hp
              @ [CallLimit, CtxSetStatusCode 429,
                 TryFallback fallbackPluginRateLimiter (Some err), CtxCancel err, CtxOnFinish])"
proof -
  note pre = preHandle_limited [OF assms]
  have tr: "calls (preHandle hp w) =
      calls w @ validator_calls hp @ [CallLimit, CtxSetStatusCode 429]
        @ tryFallback_calls hp fallbackPluginRateLimiter (Some err)"
    by (simp add: pre calls_tryFallback)
  have cnt: "filter is_TryFallback (calls (preHandle hp w)) =
      filter is_TryFallback (calls w) @ [TryFallback fallbackPluginRateLimiter (Some err)]"
    by (simp add: tr tryFallback_calls_def validator_calls_def split: option.splits)
  have hc: "filter is_handler_call (calls (preHandle hp w)) = filter is_handler_call (calls w)"
    by (simp add: tr tryFallback_calls_def validator_calls_def split: option.splits)
  have canc: "Cancelled (preHandle hp w) \<longrightarrow>
      calls (Handle hp w) = calls (preHandle hp w) @ [CtxOnFinish]
      \<and> filter is_TryFallback (calls (Handle hp w)) =
          filter is_TryFallback (calls w) @ [TryFallback fallbackPluginRateLimiter (Some err)]
      \<and> filter is_handler_call (calls (Handle hp w)) = filter is_handler_call (calls w)"
    by (simp add: Handle_cancelled_in_preHandle cnt hc)
  have nofb: "fallback hp = None \<longrightarrow>
      Cancelled (preHandle hp w)
      \<and> statusCode (ctx (Handle hp w)) = 429
      \<and> calls (Handle hp w) =
          calls w @ validator_calls hp
            @ [CallLimit, CtxSetStatusCode 429,
               TryFallback fallbackPluginRateLimiter (Some err), CtxCancel err, CtxOnFinish]"
  proof
    assume fb: "fallback hp = None"
    have c: "Cancelled (preHandle hp w)"
      by (simp add: pre tryFallback_def fb Let_def)
    have s: "statusCode (ctx (preHandle hp w)) = 429"
      by (simp add: pre ctx_tryFallback_None [OF fb])
    show "Cancelled (preHandle hp w)
      \<and> statusCode (ctx (Handle hp w)) = 429
      \<and> calls (Handle hp w) =
          calls w @ validator_calls hp
            @ [CallLimit, CtxSetStatusCode 429,
               TryFallback fallbackPluginRateLimiter (Some err), CtxCancel err, CtxOnFinish]"
      using c s by (simp add: Handle_cancelled_in_preHandle tr tryFallback_calls_def fb)
  qed
  show ?thesis
    using pre tr cnt canc nofb by blast
qed

theorem rate_limit_rejection_witness:
  "rateLimiter (hp_plain\<lparr>rateLimiter := Some limiter_reject\<rparr>) = Some limiter_reject
   \<and> after_validator (hp_plain\<lparr>rateLimiter := Some limiter_reject\<rparr>) (ctx w_init) = (None, ctx_init)
   \<and> Limit limiter_reject ctx_init = (Some ''too many requests'', ctx_init)
   \<and> fallback (hp_plain\<lparr>rateLimiter := Some limiter_reject\<rparr>) = None
   \<and> Cancelled (preHandle (hp_plain\<lparr>rateLimiter := Some limiter_reject\<rparr>) w_init)
   \<and> statusCode (ctx (Handle (hp_plain\<lparr>rateLimiter := Some limiter_reject\<rparr>) w_init)) = 429
   \<and> calls (Handle (hp_plain\<lparr>rateLimiter := Some limiter_reject\<rparr>) w_init) =
       [CallLimit, CtxSetStatusCode 429,
        TryFallback fallbackPluginRateLimiter (Some ''too many requests''),
        CtxCancel ''too many requests'', CtxOnFinish]
   \<and> payload (ctx (Handle (hp_plain\<lparr>rateLimiter := Some limiter_reject\<rparr>) w_init)) = []"
  using rate_limit_rejection [where hp = "hp_plain\<lparr>rateLimiter := Some limiter_reject\<rparr>"
      and rl = limiter_reject and w = w_init and ?c1.0 = ctx_init
      and err = "''too many requests''" and ?c2.0 = ctx_init]
  by (simp add: Handle_def Handle_body_def preHandle_def preHandle_rateLimiter_def
      preHandle_adaptor_def postHandle_def OnFinish_def handle_def handle_select_def
      invoke_r_def SetStatusCode_def tryFallback_def invoke_def record_call_def Cancel_def
      Cancelled_def Let_def hp_plain_def backend_ok_def mark_def w_init_def ctx_init_def
      limiter_reject_def after_validator_def validator_calls_def tryFallback_calls_def)

text \<open>
  Claim C3 as stated says that the fallback manager is invoked exactly once for the whole
  request. With a fallback responder that does not cancel, the request goes on to the handle
  phase, which consults the fallback manager a second time.
\<close>

theorem rate_limit_rejection_counterexample:
  "calls (Handle (hp_plain\<lparr>fallback := Some fallback_mock, rateLimiter := Some limiter_reject\<rparr>)
      w_init) =
     [CallLimit, CtxSetStatusCode 429,
      TryFallback fallbackPluginRateLimiter (Some ''too many requests''),
      CallFallbackTryFallback fallbackPluginRateLimiter (Some ''too many requests''),
      CallHandler fallbackPluginBackend,
      TryFallback fallbackPluginBackend None,
      CallFallbackTryFallback fallbackPluginBackend None,
      CtxOnFinish]
   \<and> length (filter is_TryFallback
        (calls (Handle (hp_plain\<lparr>fallback := Some fallback_mock, rateLimiter := Some limiter_reject\<rparr>)
           w_init))) = 2"
  by (simp add: Handle_def Handle_body_def preHandle_def preHandle_rateLimiter_def
      preHandle_adaptor_def postHandle_def OnFinish_def handle_def handle_select_def
      invoke_r_def SetStatusCode_def tryFallback_def invoke_def record_call_def Cancel_def
      Cancelled_def Let_def hp_plain_def backend_ok_def mark_def w_init_def ctx_init_def
      limiter_reject_def fallback_mock_def)

text \<open>
  Claim C7, as amended. When the rate limiter rejects a request, a fallback responder is
  configured and the request is not cancelled as pre-handle returns, \<open>Handle\<close> goes on to the
  handle phase: the selected handler is called directly when no circuit breaker is configured
  and handed to \<open>Protect\<close> otherwise, and the fallback manager is consulted a second time,
  with the tag of the selected backend and a nil error unless \<open>Protect\<close> returns an error,
  and then with the tag circuit-breaker and that error.
\<close>

theorem limited_request_proceeds:
  assumes "rateLimiter hp = Some rl" and "fallback hp = Some f"
    and "after_validator hp (ctx w) = (None, c1)" and "Limit rl c1 = (Some err, c2)"
    and "\<not> Cancelled (preHandle hp w)"
    and "handle_select hp (preHandle hp w) = ((pt, handler), w1)"
  shows
    "ctx (preHandle hp w) =
        fallback_tryFallback f fallbackPluginRateLimiter (Some err) (c2\<lparr>statusCode := 429\<rparr>)
     \<and> Handle hp w =
         OnFinish (Update 1)
           (let w2 = handle hp (preHandle hp w)
            in if Cancelled w2 then w2 else postHandle hp w2)
     \<and> pt = selected_tag hp (ctx (preHandle hp w))
     \<and> filter is_handler_call (calls (Handle hp w)) =
         filter is_handler_call (calls w)
           @ [if circuitBreaker hp = None then CallHandler pt else CallProtect pt]
     \<and> filter is_TryFallback (calls (Handle hp w)) =
         filter is_TryFallback (calls w)
           @ [TryFallback fallbackPluginRateLimiter (Some err),
              (case circuitBreaker hp of
                 None \<Rightarrow> TryFallback pt None
               | Some cb \<Rightarrow>
                   (case fst (Protect cb handler (ctx w1)) of
                      None \<Rightarrow> TryFallback pt None
                    | Some e \<Rightarrow> TryFallback fallbackPluginCircuitBreaker (Some e)))]"
proof -
  note pre = preHandle_limited [OF assms(1,3,4)]
  have cx: "ctx (preHandle hp w) =
      fallback_tryFallback f fallbackPluginRateLimiter (Some err) (c2\<lparr>statusCode := 429\<rparr>)"
    by (simp add: pre ctx_tryFallback_Some [OF assms(2)])
  have H: "Handle hp w =
      OnFinish (Update 1)
        (let w2 = handle hp (preHandle hp w)
         in if Cancelled w2 then w2 else postHandle hp w2)"
    using assms(5) by (simp add: Handle_def Handle_body_def Let_def)
  have pt: "pt = selected_tag hp (ctx (preHandle hp w))"
    using handle_select_tag [of hp "preHandle hp w"] assms(6) by simp
  have tr_pre: "calls (preHandle hp w) =
      calls w @ validator_calls hp
        @ [CallLimit, CtxSetStatusCode 429,
           TryFallback fallbackPluginRateLimiter (Some err),
           CallFallbackTryFallback fallbackPluginRateLimiter (Some err)]"
    by (simp add: pre calls_tryFallback tryFallback_calls_def assms(2))
  note tr_h = calls_handle [OF assms(6)]
  note tr_H = calls_Handle_not_cancelled [OF assms(5)]
  have hc: "filter is_handler_call (calls (Handle hp w)) =
      filter is_handler_call (calls w)
        @ [if circuitBreaker hp = None then CallHandler pt else CallProtect pt]"
    by (simp add: tr_H tr_h tr_pre validator_calls_def filter_calls_def tryFallback_calls_def
        assms(2) split: option.splits)
  have tf: "filter is_TryFallback (calls (Handle hp w)) =
      filter is_TryFallback (calls w)
        @ [TryFallback fallbackPluginRateLimiter (Some err),
           (case circuitBreaker hp of
              None \<Rightarrow> TryFallback pt None
            | Some cb \<Rightarrow>
                (case fst (Protect cb handler (ctx w1)) of
                   None \<Rightarrow> TryFallback pt None
                 | Some e \<Rightarrow> TryFallback fallbackPluginCircuitBreaker (Some e)))]"
    by (simp add: tr_H tr_h tr_pre validator_calls_def filter_calls_def tryFallback_calls_def
        assms(2) split: option.splits)
  show ?thesis
    using cx H pt hc tf by blast
qed

theorem limited_request_proceeds_witness:
  "rateLimiter (hp_plain\<lparr>fallback := Some fallback_mock, rateLimiter := Some limiter_reject\<rparr>) =
       Some limiter_reject
   \<and> fallback (hp_plain\<lparr>fallback := Some fallback_mock, rateLimiter := Some limiter_reject\<rparr>) =
       Some fallback_mock
   \<and> Limit limiter_reject ctx_init = (Some ''too many requests'', ctx_init)
   \<and> \<not> Cancelled (preHandle
         (hp_plain\<lparr>fallback := Some fallback_mock, rateLimiter := Some limiter_reject\<rparr>) w_init)
   \<and> filter is_handler_call (calls (Handle
         (hp_plain\<lparr>fallback := Some fallback_mock, rateLimiter := Some limiter_reject\<rparr>) w_init)) =
       [CallHandler fallbackPluginBackend]
   \<and> filter is_TryFallback (calls (Handle
         (hp_plain\<lparr>fallback := Some fallback_mock, rateLimiter := Some limiter_reject\<rparr>) w_init)) =
       [TryFallback fallbackPluginRateLimiter (Some ''too many requests''),
        TryFallback fallbackPluginBackend None]
   \<and> payload (ctx (Handle
         (hp_plain\<lparr>fallback := Some fallback_mock, rateLimiter := Some limiter_reject\<rparr>) w_init)) =
       [''fallback'', ''backend'', ''fallback'']"
  using limited_request_proceeds [where
      hp = "hp_plain\<lparr>fallback := Some fallback_mock, rateLimiter := Some limiter_reject\<rparr>"
      and rl = limiter_reject and f = fallback_mock and w = w_init and ?c1.0 = ctx_init
      and err = "''too many requests''" and ?c2.0 = ctx_init
      and pt = fallbackPluginBackend and handler = "BackendHandle backend_ok []"
      and ?w1.0 = "preHandle
         (hp_plain\<lparr>fallback := Some fallback_mock, rateLimiter := Some limiter_reject\<rparr>) w_init"]
  by (simp add: Handle_def Handle_body_def preHandle_def preHandle_rateLimiter_def
      preHandle_adaptor_def postHandle_def OnFinish_def handle_def handle_select_def
      invoke_r_def SetStatusCode_def tryFallback_def invoke_def record_call_def Cancel_def
      Cancelled_def Let_def hp_plain_def backend_ok_def mark_def w_init_def ctx_init_def
      limiter_reject_def fallback_mock_def after_validator_def selected_tag_def)

text \<open>
  Claim C7 as stated says that a backend handler is still invoked and that the second
  consultation carries a nil error. With a circuit breaker that rejects, the handler is handed
  to \<open>Protect\<close>, which does not run it, and the second consultation carries the breaker's
  error.
\<close>

theorem limited_request_proceeds_counterexample:
  "calls (Handle (hp_plain\<lparr>fallback := Some fallback_mock, rateLimiter := Some limiter_reject,
        circuitBreaker := Some breaker_open\<rparr>) w_init) =
     [CallLimit, CtxSetStatusCode 429,
      TryFallback fallbackPluginRateLimiter (Some ''too many requests''),
      CallFallbackTryFallback fallbackPluginRateLimiter (Some ''too many requests''),
      CallProtect fallbackPluginBackend,
      CtxSetStatusCode 503,
      TryFallback fallbackPluginCircuitBreaker (Some ''circuit is broken''),
      CallFallbackTryFallback fallbackPluginCircuitBreaker (Some ''circuit is broken''),
      CtxOnFinish]
   \<and> payload (ctx (Handle (hp_plain\<lparr>fallback := Some fallback_mock,
        rateLimiter := Some limiter_reject, circuitBreaker := Some breaker_open\<rparr>) w_init)) =
     [''fallback'', ''fallback'']
   \<and> \<not> Cancelled (preHandle (hp_plain\<lparr>fallback := Some fallback_mock,
        rateLimiter := Some limiter_reject, circuitBreaker := Some breaker_open\<rparr>) w_init)"
  by (simp add: Handle_def Handle_body_def preHandle_def preHandle_rateLimiter_def
      preHandle_adaptor_def postHandle_def OnFinish_def handle_def handle_select_def
      invoke_r_def SetStatusCode_def tryFallback_def invoke_def record_call_def Cancel_def
      Cancelled_def Let_def hp_plain_def backend_ok_def mark_def w_init_def ctx_init_def
      limiter_reject_def fallback_mock_def breaker_open_def)

subsection \<open>Cancellation between the phases\<close>




subsection \<open>The rate counter\<close>

text \<open>
  Claim C10, as amended. For every request and every outcome, \<open>Handle\<close> registers the
  completion function that updates the rate counter by 1 exactly once: the registration is
  the last call of \<open>Handle\<close>, issued when \<open>Handle\<close> returns (it is deferred), after
  whichever phases ran, and the phases register nothing. Completing the request then updates
  the counter once, with 1, after the functions registered before.
\<close>

theorem rate_counter_hook:
  "calls (Handle hp w) = calls (Handle_body hp w) @ [CtxOnFinish]
   \<and> filter (\<lambda>c. c = CtxOnFinish) (calls (Handle hp w)) =
       filter (\<lambda>c. c = CtxOnFinish) (calls w) @ [CtxOnFinish]
   \<and> finishFuncs (ctx (Handle hp w)) = finishFuncs (ctx (Handle_body hp w)) @ [Update 1]
   \<and> Finish (ctx (Handle hp w)) r = Finish (ctx (Handle_body hp w)) r @ [1]"
  by (simp add: Handle_def Handle_body_no_OnFinish Finish_def Update_def)

text \<open>
  Claim C10 as stated says that the completion function is registered before any phase runs.
  With the backend only, the registration comes after the call of the backend handler and
  after the consultation of the fallback manager.
\<close>

theorem rate_counter_hook_counterexample:
  "calls (Handle hp_plain w_init) =
     [CallHandler fallbackPluginBackend, TryFallback fallbackPluginBackend None, CtxOnFinish]"
  by (simp add: Handle_def Handle_body_def preHandle_def preHandle_rateLimiter_def
      preHandle_adaptor_def postHandle_def OnFinish_def handle_def handle_select_def
      invoke_r_def SetStatusCode_def tryFallback_def invoke_def record_call_def Cancel_def
      Cancelled_def Let_def hp_plain_def backend_ok_def mark_def w_init_def ctx_init_def)

subsection \<open>Teardown and construction\<close>

text \<open>
  Claim C8. \<open>Close\<close> releases exactly the configured stages, each once, in the fixed order
  fallback, validator, rate limiter, circuit breaker, adaptor, mirror backend, candidate
  backend, backend, compression: the backend always, an absent optional stage never, and the
  absence of a stage does not keep the others from being released.
\<close>

theorem Close_releases_configured_stages:
  "Close hp t = t @ filter (configured hp) closeOrder
   \<and> count_list (Close hp []) s = (if configured hp s then 1 else 0)
   \<and> count_list (Close hp []) CloseBackend = 1
   \<and> configured hp CloseBackend"
  by (simp add: Close_eq count_list_filter count_closeOrder)

text \<open>
  Claim C9. \<open>New\<close> configures compression if and only if the specification has it, and then
  appends its \<open>Compress\<close> to the response observers of the backend and, when a candidate
  backend is configured, to those of the candidate backend; without compression the
  observers of both are the ones their constructors gave them. The handlers are untouched,
  so whichever backend handles a request has the observer.
\<close>

theorem New_registers_Compress:
  "compression (New env spec runtime0) =
      (case Compression spec of
         Some s \<Rightarrow> Some (compression_New env s (reload env spec runtime0))
       | None \<Rightarrow> None)
   \<and> backendResponseGotFuncs (backend (New env spec runtime0)) =
       backendResponseGotFuncs (backend_New env (Backend spec) (reload env spec runtime0))
         @ (case Compression spec of
              Some s \<Rightarrow> [Compress (compression_New env s (reload env spec runtime0))]
            | None \<Rightarrow> [])
   \<and> map_option candidateResponseGotFuncs (candidateBackend (New env spec runtime0)) =
       (case CandidateBackend spec of
          Some sc \<Rightarrow>
            Some (candidateResponseGotFuncs
                    (candidatebackend_New env sc (reload env spec runtime0))
                  @ (case Compression spec of
                       Some s \<Rightarrow> [Compress (compression_New env s (reload env spec runtime0))]
                     | None \<Rightarrow> []))
        | None \<Rightarrow> None)
   \<and> BackendHandle (backend (New env spec runtime0)) =
       BackendHandle (backend_New env (Backend spec) (reload env spec runtime0))
   \<and> map_option CandidateHandle (candidateBackend (New env spec runtime0)) =
       map_option (\<lambda>sc. CandidateHandle (candidatebackend_New env sc (reload env spec runtime0)))
         (CandidateBackend spec)"
  by (cases "Compression spec"; cases "CandidateBackend spec")
     (simp_all add: New_def Let_def Backend_OnResponseGot_def CandidateBackend_OnResponseGot_def)

end
